theory Spec2Isabelle
  imports Main
begin

section \<open>Auto Form Recovery: the content script\<close>

text \<open>
  A shallow embedding of \<^verbatim>\<open>contentScript.js\<close>: the field eligibility filter
  (\<^verbatim>\<open>shouldSaveField\<close>), the form key (\<^verbatim>\<open>getFormKey\<close>), the login form
  classifier (\<^verbatim>\<open>isLoginForm\<close>), the persistence engine (\<^verbatim>\<open>saveFormData\<close>,
  \<^verbatim>\<open>restoreFormData\<close>, \<^verbatim>\<open>showRestoreNotification\<close>) and \<^verbatim>\<open>monitorForm\<close>.

  The browser is the environment. What the script reads from a DOM node is a field of a
  record: the attributes that \<^verbatim>\<open>getAttribute\<close> answers from, and the IDL properties
  (\<^verbatim>\<open>el.name\<close>, \<^verbatim>\<open>el.type\<close>, \<^verbatim>\<open>el.value\<close>, ...) the script reads directly.
  The theorems hold for every combination of these fields, in particular for the
  combinations a browser produces. Strings are \<open>char list\<close>; \<^verbatim>\<open>toLowerCase\<close> is the
  mapping of the letters A to Z.
\<close>

subsection \<open>Strings and arrays\<close>

definition lower_char :: "char \<Rightarrow> char" where
  "lower_char c =
     (case map_of (zip ''ABCDEFGHIJKLMNOPQRSTUVWXYZ'' ''abcdefghijklmnopqrstuvwxyz'') c of
        None \<Rightarrow> c
      | Some d \<Rightarrow> d)"

definition toLowerCase :: "string \<Rightarrow> string" where
  "toLowerCase s = map lower_char s"

fun startsWith :: "string \<Rightarrow> string \<Rightarrow> bool" where
  "startsWith s [] = True"
| "startsWith [] (k # ks) = False"
| "startsWith (c # s) (k # ks) = (c = k \<and> startsWith s ks)"

text \<open>\<^verbatim>\<open>s.includes(k)\<close> on strings: \<open>k\<close> occurs in \<open>s\<close> as a contiguous substring.\<close>

fun str_includes :: "string \<Rightarrow> string \<Rightarrow> bool" where
  "str_includes [] k = (k = [])"
| "str_includes (c # s) k = (startsWith (c # s) k \<or> str_includes s k)"

text \<open>\<^verbatim>\<open>xs.some(p)\<close> and \<^verbatim>\<open>xs.includes(x)\<close> on arrays.\<close>

primrec some :: "('a \<Rightarrow> bool) \<Rightarrow> 'a list \<Rightarrow> bool" where
  "some p [] = False"
| "some p (x # xs) = (p x \<or> some p xs)"

primrec arr_includes :: "'a list \<Rightarrow> 'a \<Rightarrow> bool" where
  "arr_includes [] x = False"
| "arr_includes (y # ys) x = (y = x \<or> arr_includes ys x)"

text \<open>\<^verbatim>\<open>xs.join(sep)\<close>.\<close>

fun join :: "string \<Rightarrow> string list \<Rightarrow> string" where
  "join sep [] = []"
| "join sep [x] = x"
| "join sep (x # y # ys) = x @ sep @ join sep (y # ys)"

text \<open>\<^verbatim>\<open>v || ''\<close> for a value that is a string or \<^verbatim>\<open>null\<close>.\<close>

definition or_empty :: "string option \<Rightarrow> string" where
  "or_empty v = (case v of None \<Rightarrow> [] | Some x \<Rightarrow> x)"

subsection \<open>Data model\<close>

text \<open>
  A form control or any other element below a form. \<open>tagName\<close> is what the DOM returns
  (upper case in an HTML document); \<open>attributes\<close> is what \<^verbatim>\<open>getAttribute\<close> reads, the first
  entry for a name being the attribute's value.
\<close>

record element =
  tagName :: string
  attributes :: "(string \<times> string) list"
  el_name :: string
  el_id :: string
  el_type :: string
  el_autocomplete :: string
  el_value :: string
  el_checked :: bool

definition getAttribute :: "element \<Rightarrow> string \<Rightarrow> string option" where
  "getAttribute el n = map_of (attributes el) n"

text \<open>
  A form: \<open>node\<close> is the identity of the DOM object, \<open>descendants\<close> the elements below the
  form in tree order (what \<^verbatim>\<open>querySelector\<close> and \<^verbatim>\<open>querySelectorAll\<close> search),
  \<open>elements\<close> the collection \<^verbatim>\<open>form.elements\<close>, and \<open>autoRecoveryAttached\<close> the
  expando \<^verbatim>\<open>form._autoRecoveryAttached\<close>.
\<close>

record form =
  node :: nat
  form_id :: string
  form_attributes :: "(string \<times> string) list"
  descendants :: "element list"
  elements :: "element list"
  autoRecoveryAttached :: bool

definition form_getAttribute :: "form \<Rightarrow> string \<Rightarrow> string option" where
  "form_getAttribute f n = map_of (form_attributes f) n"

record settings =
  enabled :: bool
  retentionDays :: int
  ignoreDomains :: "string list"
  ignoreLoginForms :: bool

subsection \<open>Selectors\<close>

text \<open>
  \<^verbatim>\<open>form.querySelectorAll('input')\<close>: a type selector matches the element's local name,
  the lower-cased \<open>tagName\<close> of an HTML element.
\<close>

definition querySelectorAll :: "form \<Rightarrow> string \<Rightarrow> element list" where
  "querySelectorAll f tag = filter (\<lambda>el. toLowerCase (tagName el) = tag) (descendants f)"

text \<open>
  \<^verbatim>\<open>form.querySelector('input[type="password"]')\<close>: in an HTML document the value of a
  \<^verbatim>\<open>type\<close> attribute is compared ASCII case-insensitively by an attribute selector.
\<close>

definition querySelector_input_type :: "form \<Rightarrow> string \<Rightarrow> element option" where
  "querySelector_input_type f t =
     find (\<lambda>el. case getAttribute el ''type'' of
                  None \<Rightarrow> False
                | Some v \<Rightarrow> toLowerCase v = t)
          (querySelectorAll f ''input'')"

subsection \<open>Field eligibility: \<^verbatim>\<open>shouldSaveField\<close>\<close>

definition shouldSaveField :: "element \<Rightarrow> bool" where
  "shouldSaveField el =
     (let tag = toLowerCase (tagName el) in
      if tag = ''input''
         \<and> arr_includes [''password'', ''hidden'', ''file'']
              (toLowerCase (or_empty (getAttribute el ''type'')))
      then False
      else if el_autocomplete el = ''off'' then False
      else if getAttribute el ''data-autorecovery'' = Some ''false'' then False
      else True)"

subsection \<open>Login form classifier: \<^verbatim>\<open>isLoginForm\<close>\<close>

definition auth_keywords :: "string list" where
  "auth_keywords = [''login'', ''log-in'', ''sign-in'', ''signin'', ''sign_in'', ''auth'',
               ''authenticate'', ''authentication'', ''account'', ''passwd'']"

definition form_attrs :: "form \<Rightarrow> string" where
  "form_attrs f =
     toLowerCase (join '' '' [or_empty (form_getAttribute f ''id''),
                              or_empty (form_getAttribute f ''name''),
                              or_empty (form_getAttribute f ''class''),
                              or_empty (form_getAttribute f ''action'')])"

definition isTextInput :: "element \<Rightarrow> bool" where
  "isTextInput el =
     (let type = toLowerCase (or_empty (getAttribute el ''type'')) in
      arr_includes [''text'', ''email'', ''tel'', ''phone'', ''number''] type \<or> type = [])"

definition isEmailInput :: "element \<Rightarrow> bool" where
  "isEmailInput el =
     (let nameAttr = toLowerCase (or_empty (getAttribute el ''name''));
          idAttr = toLowerCase (or_empty (getAttribute el ''id''));
          type = toLowerCase (or_empty (getAttribute el ''type''))
      in type = ''email'' \<or> str_includes nameAttr ''email'' \<or> str_includes idAttr ''email'')"

definition isPasswordInput :: "element \<Rightarrow> bool" where
  "isPasswordInput el = (toLowerCase (or_empty (getAttribute el ''type'')) = ''password'')"

definition isUserInput :: "element \<Rightarrow> bool" where
  "isUserInput el =
     (let nameAttr = toLowerCase (or_empty (getAttribute el ''name''));
          idAttr = toLowerCase (or_empty (getAttribute el ''id''))
      in str_includes nameAttr ''user'' \<or> str_includes idAttr ''user''
         \<or> str_includes nameAttr ''login'' \<or> str_includes idAttr ''login'')"

definition isLoginForm :: "settings \<Rightarrow> form \<Rightarrow> bool" where
  "isLoginForm s f =
     (if \<not> ignoreLoginForms s then False
      else if querySelector_input_type f ''password'' \<noteq> None then True
      else let attrs = form_attrs f in
        if some (\<lambda>k. str_includes attrs k) auth_keywords then True
        else let inputs = querySelectorAll f ''input'';
                 textInputs = filter isTextInput inputs;
                 emailInputs = filter isEmailInput inputs;
                 passwordInputs = filter isPasswordInput inputs;
                 textAreas = querySelectorAll f ''textarea''
             in if length passwordInputs = 0 \<and> length textAreas = 0 then
                  if length emailInputs \<ge> 1 \<and> length textInputs \<le> 1 \<and> length inputs \<le> 3
                  then True
                  else let userInputs = filter isUserInput inputs in
                    if length userInputs \<ge> 1 \<and> length inputs \<le> 3 then True else False
                else False)"

subsection \<open>Form key: \<^verbatim>\<open>getFormKey\<close>\<close>

text \<open>
  The page: \<^verbatim>\<open>location.origin\<close>, \<^verbatim>\<open>location.pathname\<close>, the identities of the forms in
  \<^verbatim>\<open>document.forms\<close> in their order, and the number of elements in the document that
  match \<^verbatim>\<open>.auto-form-recovery-notice\<close>.
\<close>

record document =
  location_origin :: string
  location_pathname :: string
  document_forms :: "nat list"
  notices :: nat

text \<open>\<^verbatim>\<open>xs.indexOf(x)\<close>: the first position of \<open>x\<close>, or \<open>-1\<close>.\<close>

fun indexOf_from :: "'a list \<Rightarrow> 'a \<Rightarrow> int \<Rightarrow> int" where
  "indexOf_from [] x i = - 1"
| "indexOf_from (y # ys) x i = (if y = x then i else indexOf_from ys x (i + 1))"

definition indexOf :: "'a list \<Rightarrow> 'a \<Rightarrow> int" where
  "indexOf xs x = indexOf_from xs x 0"

text \<open>\<^verbatim>\<open>n.toString()\<close> of an integer: its decimal digits, with a sign when negative.\<close>

definition digit :: "nat \<Rightarrow> char" where
  "digit n = ''0123456789'' ! n"

fun nat_toString :: "nat \<Rightarrow> string" where
  "nat_toString n =
     (if n < 10 then [digit n] else nat_toString (n div 10) @ [digit (n mod 10)])"

declare nat_toString.simps [simp del]

definition toString :: "int \<Rightarrow> string" where
  "toString i = (if i < 0 then CHR ''-'' # nat_toString (nat (- i)) else nat_toString (nat i))"

text \<open>
  \<^verbatim>\<open>form.id || form.getAttribute('name')\<close> is \<^verbatim>\<open>form.id\<close> when that is not empty, and
  otherwise the attribute, which may be \<^verbatim>\<open>null\<close> or empty: both are falsy.
\<close>

definition getFormKey :: "document \<Rightarrow> form \<Rightarrow> string" where
  "getFormKey doc f =
     (let url = location_origin doc @ location_pathname doc;
          identifier = (if form_id f \<noteq> [] then Some (form_id f)
                        else form_getAttribute f ''name'');
          idx = (if or_empty identifier = []
                 then toString (indexOf (document_forms doc) (node f))
                 else [])
      in url @ ''::'' @ (if or_empty identifier \<noteq> [] then or_empty identifier else idx))"

subsection \<open>Storage\<close>

text \<open>
  A stored value is a string or a boolean. An entry is the object
  \<^verbatim>\<open>{ data, timestamp }\<close> that \<^verbatim>\<open>saveFormData\<close> writes; its \<open>data\<close> object is a finite
  map from field keys to values, the own properties of the object.
  \<^verbatim>\<open>chrome.storage.local\<close> is a map from keys to entries, and the script's calls to it
  are values of \<open>storage_call\<close>, performed in the order of issue.
\<close>

datatype jsval = Str string | Bool bool

datatype error = TypeError

record entry =
  data :: "string \<rightharpoonup> jsval"
  timestamp :: int

type_synonym storage = "string \<rightharpoonup> entry"

datatype storage_call = StorageSet string entry | StorageRemove string

fun perform_call :: "storage \<Rightarrow> storage_call \<Rightarrow> storage" where
  "perform_call st (StorageSet k e) = st(k \<mapsto> e)"
| "perform_call st (StorageRemove k) = st(k := None)"

definition perform :: "storage_call list \<Rightarrow> storage \<Rightarrow> storage" where
  "perform calls st = foldl perform_call st calls"

text \<open>
  \<^verbatim>\<open>data[k] = v\<close> on the plain object \<^verbatim>\<open>data\<close>, for a string or a boolean \<open>v\<close>: the
  key \<^verbatim>\<open>__proto__\<close> names the prototype accessor, whose setter ignores a value that
  is not an object, so nothing is stored; every other key becomes an own property.
\<close>

definition obj_set :: "(string \<rightharpoonup> jsval) \<Rightarrow> string \<Rightarrow> jsval \<Rightarrow> (string \<rightharpoonup> jsval)" where
  "obj_set d k v = (if k = ''__proto__'' then d else d(k \<mapsto> v))"

text \<open>
  \<^verbatim>\<open>saved.hasOwnProperty(k)\<close> on a plain object read from the storage: when the object
  has an own property \<^verbatim>\<open>hasOwnProperty\<close>, a string or a boolean, that value is what is
  called, and the call raises a \<^verbatim>\<open>TypeError\<close>; otherwise the inherited method answers
  whether \<open>k\<close> is an own property.
\<close>

definition hasOwnProperty :: "(string \<rightharpoonup> jsval) \<Rightarrow> string \<Rightarrow> error + bool" where
  "hasOwnProperty saved k =
     (if saved ''hasOwnProperty'' \<noteq> None then Inl TypeError else Inr (saved k \<noteq> None))"

text \<open>The conversions of an assignment to \<^verbatim>\<open>el.checked\<close> and to \<^verbatim>\<open>el.value\<close>.\<close>

fun to_boolean :: "jsval \<Rightarrow> bool" where
  "to_boolean (Bool b) = b"
| "to_boolean (Str v) = (v \<noteq> [])"

fun to_string :: "jsval \<Rightarrow> string" where
  "to_string (Str v) = v"
| "to_string (Bool b) = (if b then ''true'' else ''false'')"

subsection \<open>Saving: \<^verbatim>\<open>saveFormData\<close>\<close>

text \<open>The field key as the save loop computes it, for the control at position \<open>index\<close>.\<close>

definition save_fieldKey :: "element \<Rightarrow> nat \<Rightarrow> string" where
  "save_fieldKey el index =
     (let tag = toLowerCase (tagName el);
          fieldKey = (if el_name el \<noteq> [] then el_name el
                      else if el_id el \<noteq> [] then el_id el
                      else tag @ ''_'' @ toString (int index))
      in if el_type el = ''checkbox'' \<or> el_type el = ''radio'' then
           (if el_name el \<noteq> [] then el_name el @ ''_'' @ el_value el else fieldKey)
         else fieldKey)"

text \<open>One iteration of the loop over \<^verbatim>\<open>form.elements\<close>.\<close>

definition save_field :: "(string \<rightharpoonup> jsval) \<Rightarrow> element \<Rightarrow> nat \<Rightarrow> (string \<rightharpoonup> jsval)" where
  "save_field d el index =
     (if \<not> shouldSaveField el then d
      else let tag = toLowerCase (tagName el) in
        if tag \<noteq> ''input'' \<and> tag \<noteq> ''textarea'' \<and> tag \<noteq> ''select'' then d
        else if el_type el = ''checkbox'' \<or> el_type el = ''radio''
             then obj_set d (save_fieldKey el index) (Bool (el_checked el))
             else obj_set d (save_fieldKey el index) (Str (el_value el)))"

fun save_loop :: "(string \<rightharpoonup> jsval) \<Rightarrow> nat \<Rightarrow> element list \<Rightarrow> (string \<rightharpoonup> jsval)" where
  "save_loop d index [] = d"
| "save_loop d index (el # els) = save_loop (save_field d el index) (Suc index) els"

text \<open>\<open>now\<close> is the value of \<^verbatim>\<open>Date.now()\<close>; the result is the calls issued to the storage.\<close>

definition saveFormData :: "settings \<Rightarrow> document \<Rightarrow> int \<Rightarrow> form \<Rightarrow> storage_call list" where
  "saveFormData s doc now f =
     (if isLoginForm s f then []
      else let key = getFormKey doc f;
               d = save_loop Map.empty 0 (elements f)
           in [StorageSet key \<lparr>data = d, timestamp = now\<rparr>])"

subsection \<open>Restoring: \<^verbatim>\<open>restoreFormData\<close> and \<^verbatim>\<open>showRestoreNotification\<close>\<close>

text \<open>
  The notice is appended to the document unless one is already there. (Its removal four
  seconds later is a timer of its own and is not part of a restore.)
\<close>

definition showRestoreNotification :: "document \<Rightarrow> document" where
  "showRestoreNotification doc =
     (if notices doc > 0 then doc else doc\<lparr>notices := notices doc + 1\<rparr>)"

text \<open>The field key as the restore loop computes it.\<close>

definition restore_fieldKey :: "element \<Rightarrow> nat \<Rightarrow> string" where
  "restore_fieldKey el index =
     (let tag = toLowerCase (tagName el);
          fieldKey = (if el_name el \<noteq> [] then el_name el
                      else if el_id el \<noteq> [] then el_id el
                      else tag @ ''_'' @ toString (int index))
      in if el_type el = ''checkbox'' \<or> el_type el = ''radio''
         then (if el_name el \<noteq> [] then el_name el @ ''_'' @ el_value el else fieldKey)
         else fieldKey)"

text \<open>
  One iteration of the restore loop: \<open>Inr (Some el')\<close> with the control after the
  assignment, \<open>Inr None\<close> when the iteration assigns nothing, \<open>Inl\<close> when it raises.
\<close>

definition restore_field ::
  "(string \<rightharpoonup> jsval) \<Rightarrow> element \<Rightarrow> nat \<Rightarrow> error + element option" where
  "restore_field saved el index =
     (if \<not> shouldSaveField el then Inr None
      else let tag = toLowerCase (tagName el) in
        if tag \<noteq> ''input'' \<and> tag \<noteq> ''textarea'' \<and> tag \<noteq> ''select'' then Inr None
        else let fieldKey = restore_fieldKey el index in
          case hasOwnProperty saved fieldKey of
            Inl e \<Rightarrow> Inl e
          | Inr False \<Rightarrow> Inr None
          | Inr True \<Rightarrow>
              (case saved fieldKey of
                 None \<Rightarrow> Inr None
               | Some v \<Rightarrow>
                   if el_type el = ''checkbox'' \<or> el_type el = ''radio''
                   then Inr (Some (el\<lparr>el_checked := to_boolean v\<rparr>))
                   else Inr (Some (el\<lparr>el_value := to_string v\<rparr>))))"

text \<open>
  The loop over \<^verbatim>\<open>form.elements\<close>, with the flag \<^verbatim>\<open>restoredAny\<close> and, beside it, the
  number of assignments made so far (the source keeps the flag only). The result is the
  controls after the loop, the flag, the number of assignments, and the error when an
  iteration raised: the loop ends there and the remaining controls are as they were.
\<close>

fun restore_loop ::
  "(string \<rightharpoonup> jsval) \<Rightarrow> nat \<Rightarrow> element list \<Rightarrow> bool \<Rightarrow> nat
   \<Rightarrow> element list \<times> bool \<times> nat \<times> error option" where
  "restore_loop saved index [] restoredAny n = ([], restoredAny, n, None)"
| "restore_loop saved index (el # els) restoredAny n =
     (case restore_field saved el index of
        Inl e \<Rightarrow> (el # els, restoredAny, n, Some e)
      | Inr None \<Rightarrow>
          (case restore_loop saved (Suc index) els restoredAny n of
             (els', r) \<Rightarrow> (el # els', r))
      | Inr (Some el') \<Rightarrow>
          (case restore_loop saved (Suc index) els True (Suc n) of
             (els', r) \<Rightarrow> (el' # els', r)))"

definition retentionMs :: "settings \<Rightarrow> int" where
  "retentionMs s =
     (if retentionDays s \<noteq> 0 then retentionDays s else 30) * 24 * 60 * 60 * 1000"

text \<open>
  What a restore leaves behind: the form, the calls issued to the storage, the document,
  the number of assignments, the number of calls of \<^verbatim>\<open>showRestoreNotification\<close>, and
  the error when the callback ended by raising one.
\<close>

record restore_result =
  restored_form :: form
  storage_calls :: "storage_call list"
  restored_document :: document
  restoredCount :: nat
  notification_calls :: nat
  raised :: "error option"

text \<open>The result of a restore that returns before its loop.\<close>

definition nothing_restored :: "form \<Rightarrow> document \<Rightarrow> storage_call list \<Rightarrow> restore_result" where
  "nothing_restored f doc calls =
     \<lparr>restored_form = f, storage_calls = calls, restored_document = doc, restoredCount = 0,
      notification_calls = 0, raised = None\<rparr>"

text \<open>
  \<open>st\<close> is the content of \<^verbatim>\<open>chrome.storage.local\<close> when the \<^verbatim>\<open>get\<close> callback runs and
  \<open>now\<close> the value of \<^verbatim>\<open>Date.now()\<close> there; the form is the same at the call and in
  the callback. A stored entry is an object, hence truthy, and so is its \<open>data\<close>:
  \<^verbatim>\<open>entry.data || entry\<close> is \<^verbatim>\<open>entry.data\<close>. A timestamp of \<open>0\<close> is falsy. An error
  raised in the loop ends the callback: the notification is not reached.

  The script calls \<^verbatim>\<open>restoreFormData\<close> in three places, each under
  \<^verbatim>\<open>if (!isLoginForm(form))\<close>, so the first test below is false in every call it makes.
\<close>

definition restoreFormData ::
  "settings \<Rightarrow> document \<Rightarrow> int \<Rightarrow> storage \<Rightarrow> form \<Rightarrow> restore_result" where
  "restoreFormData s doc now st f =
     (if isLoginForm s f then nothing_restored f doc []
      else let key = getFormKey doc f in
        case st key of
          None \<Rightarrow> nothing_restored f doc []
        | Some e \<Rightarrow>
            let saved = data e in
            if timestamp e \<noteq> 0 \<and> now - timestamp e > retentionMs s
            then nothing_restored f doc [StorageRemove key]
            else case restore_loop saved 0 (elements f) False 0 of
                   (els', restoredAny, n, err) \<Rightarrow>
                     if err \<noteq> None
                     then \<lparr>restored_form = f\<lparr>elements := els'\<rparr>, storage_calls = [],
                           restored_document = doc, restoredCount = n,
                           notification_calls = 0, raised = err\<rparr>
                     else if restoredAny
                     then \<lparr>restored_form = f\<lparr>elements := els'\<rparr>, storage_calls = [],
                           restored_document = showRestoreNotification doc, restoredCount = n,
                           notification_calls = 1, raised = None\<rparr>
                     else \<lparr>restored_form = f\<lparr>elements := els'\<rparr>, storage_calls = [],
                           restored_document = doc, restoredCount = n,
                           notification_calls = 0, raised = None\<rparr>)"

subsection \<open>Monitoring: \<^verbatim>\<open>monitorForm\<close>\<close>

text \<open>
  \<^verbatim>\<open>monitorForm\<close> marks the form and attaches the debounced listener; the mark stands for
  the listeners, which nothing in the script removes.
\<close>

definition monitorForm :: "settings \<Rightarrow> form \<Rightarrow> form" where
  "monitorForm s f =
     (if autoRecoveryAttached f then f
      else if isLoginForm s f then f
      else f\<lparr>autoRecoveryAttached := True\<rparr>)"

text \<open>
  After monitoring, the page is a sequence of firings of the debounced listener, each
  with the time and the state of the form at that moment; a firing calls
  \<^verbatim>\<open>saveFormData(form)\<close>. \<open>run_saves\<close> gives the storage after the sequence and the calls
  issued during it.
\<close>

fun run_saves ::
  "settings \<Rightarrow> document \<Rightarrow> (int \<times> form) list \<Rightarrow> storage \<Rightarrow> storage \<times> storage_call list" where
  "run_saves s doc [] st = (st, [])"
| "run_saves s doc ((now, f) # rest) st =
     (let calls = saveFormData s doc now f in
      case run_saves s doc rest (perform calls st) of
        (st', calls') \<Rightarrow> (st', calls @ calls'))"

section \<open>Vocabulary of the properties\<close>

text \<open>
  The words of the specification, each as a definition of its own, so that a property can
  be compared with what the script computes.
\<close>

text \<open>
  The type of an input is its lower-cased \<^verbatim>\<open>type\<close> attribute, empty when the attribute
  is absent. A form has a password input, a textarea or an authentication keyword as the
  classifier looks for them.
\<close>

definition input_type :: "element \<Rightarrow> string" where
  "input_type el = toLowerCase (or_empty (getAttribute el ''type''))"

definition has_password_input :: "form \<Rightarrow> bool" where
  "has_password_input f =
     some (\<lambda>el. toLowerCase (tagName el) = ''input'' \<and> input_type el = ''password'')
       (descendants f)"

definition has_textarea :: "form \<Rightarrow> bool" where
  "has_textarea f = some (\<lambda>el. toLowerCase (tagName el) = ''textarea'') (descendants f)"

definition has_auth_keyword :: "form \<Rightarrow> bool" where
  "has_auth_keyword f = some (\<lambda>k. str_includes (form_attrs f) k) auth_keywords"

definition form_inputs :: "form \<Rightarrow> element list" where
  "form_inputs f = filter (\<lambda>el. toLowerCase (tagName el) = ''input'') (descendants f)"

definition count :: "('a \<Rightarrow> bool) \<Rightarrow> 'a list \<Rightarrow> nat" where
  "count p xs = length (filter p xs)"

text \<open>
  Text-like inputs: first with the types the script lists, then with the types the
  specification lists (\<open>claimed_text_like\<close>: the \<^verbatim>\<open>type\<close> attribute is one of
  \<^verbatim>\<open>text\<close>, \<^verbatim>\<open>email\<close>, \<^verbatim>\<open>tel\<close>, \<^verbatim>\<open>number\<close>, or absent). Email-like and user-like
  inputs, and the structural rule of the classifier over a notion of text-like.
\<close>

definition text_like :: "element \<Rightarrow> bool" where
  "text_like el =
     (input_type el = ''text'' \<or> input_type el = ''email'' \<or> input_type el = ''tel''
      \<or> input_type el = ''phone'' \<or> input_type el = ''number'' \<or> input_type el = [])"

definition claimed_text_like :: "element \<Rightarrow> bool" where
  "claimed_text_like el =
     (case getAttribute el ''type'' of
        None \<Rightarrow> True
      | Some t \<Rightarrow> t = ''text'' \<or> t = ''email'' \<or> t = ''tel'' \<or> t = ''number'')"

definition email_like :: "element \<Rightarrow> bool" where
  "email_like el =
     (input_type el = ''email''
      \<or> str_includes (toLowerCase (or_empty (getAttribute el ''name''))) ''email''
      \<or> str_includes (toLowerCase (or_empty (getAttribute el ''id''))) ''email'')"

definition user_like :: "element \<Rightarrow> bool" where
  "user_like el =
     (let n = toLowerCase (or_empty (getAttribute el ''name''));
          i = toLowerCase (or_empty (getAttribute el ''id''))
      in str_includes n ''user'' \<or> str_includes n ''login''
         \<or> str_includes i ''user'' \<or> str_includes i ''login'')"

definition structural_rule :: "(element \<Rightarrow> bool) \<Rightarrow> form \<Rightarrow> bool" where
  "structural_rule textlike f =
     (let inputs = form_inputs f in
      (count email_like inputs \<ge> 1 \<and> count textlike inputs \<le> 1 \<and> length inputs \<le> 3)
      \<or> (count user_like inputs \<ge> 1 \<and> length inputs \<le> 3))"

text \<open>
  The field key in the words of the specification: the name, else the id, else the tag
  and the position; for a checkbox or a radio button with a name, the name and the value.
\<close>

definition is_checkable :: "element \<Rightarrow> bool" where
  "is_checkable el = (el_type el = ''checkbox'' \<or> el_type el = ''radio'')"

definition fieldKey :: "element \<Rightarrow> nat \<Rightarrow> string" where
  "fieldKey el index =
     (if is_checkable el \<and> el_name el \<noteq> [] then el_name el @ ''_'' @ el_value el
      else if el_name el \<noteq> [] then el_name el
      else if el_id el \<noteq> [] then el_id el
      else toLowerCase (tagName el) @ ''_'' @ toString (int index))"

text \<open>
  An eligible control passes the eligibility filter and is an \<^verbatim>\<open>input\<close>, a
  \<^verbatim>\<open>textarea\<close> or a \<^verbatim>\<open>select\<close>. What a control holds is its checked state when it
  is a checkbox or a radio button and its string value otherwise.
\<close>

definition eligible :: "element \<Rightarrow> bool" where
  "eligible el =
     (shouldSaveField el
      \<and> (toLowerCase (tagName el) = ''input'' \<or> toLowerCase (tagName el) = ''textarea''
         \<or> toLowerCase (tagName el) = ''select''))"

definition field_value :: "element \<Rightarrow> jsval" where
  "field_value el = (if is_checkable el then Bool (el_checked el) else Str (el_value el))"

text \<open>The field keys and values of the eligible controls, in the order of the form.\<close>

fun field_entries :: "nat \<Rightarrow> element list \<Rightarrow> (string \<times> jsval) list" where
  "field_entries index [] = []"
| "field_entries index (el # els) =
     (if eligible el then [(fieldKey el index, field_value el)] else [])
     @ field_entries (Suc index) els"

text \<open>Clearing a form unchecks its checkboxes and radio buttons and empties every other value.\<close>

definition clear_control :: "element \<Rightarrow> element" where
  "clear_control el = (if is_checkable el then el\<lparr>el_checked := False\<rparr> else el\<lparr>el_value := []\<rparr>)"

definition clearForm :: "form \<Rightarrow> form" where
  "clearForm f = f\<lparr>elements := map clear_control (elements f)\<rparr>"

section \<open>Example pages\<close>

definition password_input :: element where
  "password_input =
     \<lparr>tagName = ''INPUT'', attributes = [(''type'', ''password''), (''name'', ''pw'')],
      el_name = ''pw'', el_id = '''', el_type = ''password'', el_autocomplete = '''',
      el_value = ''secret'', el_checked = False\<rparr>"

definition default_settings :: settings where
  "default_settings =
     \<lparr>enabled = True, retentionDays = 30, ignoreDomains = [], ignoreLoginForms = True\<rparr>"

definition text_input :: "string \<Rightarrow> string \<Rightarrow> element" where
  "text_input n v =
     \<lparr>tagName = ''INPUT'', attributes = [(''type'', ''text''), (''name'', n)],
      el_name = n, el_id = '''', el_type = ''text'', el_autocomplete = '''',
      el_value = v, el_checked = False\<rparr>"

definition signup_form :: form where
  "signup_form =
     \<lparr>node = 0, form_id = ''newsletter'', form_attributes = [(''id'', ''newsletter'')],
      descendants = [text_input ''mail'' ''me@example.com'', password_input],
      elements = [text_input ''mail'' ''me@example.com'', password_input],
      autoRecoveryAttached = False\<rparr>"

definition email_input :: element where
  "email_input =
     \<lparr>tagName = ''INPUT'', attributes = [(''type'', ''email''), (''name'', ''email'')],
      el_name = ''email'', el_id = '''', el_type = ''email'', el_autocomplete = '''',
      el_value = '''', el_checked = False\<rparr>"

definition phone_input :: element where
  "phone_input =
     \<lparr>tagName = ''INPUT'', attributes = [(''type'', ''phone''), (''name'', ''mobile'')],
      el_name = ''mobile'', el_id = '''', el_type = ''text'', el_autocomplete = '''',
      el_value = '''', el_checked = False\<rparr>"

definition callback_form :: form where
  "callback_form =
     \<lparr>node = 0, form_id = ''callback'', form_attributes = [(''id'', ''callback'')],
      descendants = [email_input, phone_input], elements = [email_input, phone_input],
      autoRecoveryAttached = False\<rparr>"

definition email_step_form :: form where
  "email_step_form =
     \<lparr>node = 0, form_id = '''', form_attributes = [],
      descendants = [email_input], elements = [email_input],
      autoRecoveryAttached = False\<rparr>"

definition contact_form :: form where
  "contact_form =
     \<lparr>node = 7, form_id = ''contact'', form_attributes = [(''id'', ''contact'')],
      descendants = [text_input ''msg'' ''hi''], elements = [text_input ''msg'' ''hi''],
      autoRecoveryAttached = False\<rparr>"

definition search_form :: form where
  "search_form =
     \<lparr>node = 9, form_id = '''', form_attributes = [],
      descendants = [text_input ''q'' ''isabelle''], elements = [text_input ''q'' ''isabelle''],
      autoRecoveryAttached = False\<rparr>"

definition example_page :: document where
  "example_page =
     \<lparr>location_origin = ''https://example.com'', location_pathname = ''/page'',
      document_forms = [7, 9], notices = 0\<rparr>"

definition checkbox :: "string \<Rightarrow> string \<Rightarrow> bool \<Rightarrow> element" where
  "checkbox n v c =
     \<lparr>tagName = ''INPUT'', attributes = [(''type'', ''checkbox''), (''name'', n), (''value'', v)],
      el_name = n, el_id = '''', el_type = ''checkbox'', el_autocomplete = '''',
      el_value = v, el_checked = c\<rparr>"

definition hidden_input :: "string \<Rightarrow> string \<Rightarrow> element" where
  "hidden_input n v =
     \<lparr>tagName = ''INPUT'', attributes = [(''type'', ''hidden''), (''name'', n)],
      el_name = n, el_id = '''', el_type = ''hidden'', el_autocomplete = '''',
      el_value = v, el_checked = False\<rparr>"

definition feedback_controls :: "element list" where
  "feedback_controls =
     [text_input ''msg'' ''hi'', hidden_input ''token'' ''c0ffee'', checkbox ''copy'' ''me'' True]"

definition feedback_form :: form where
  "feedback_form =
     \<lparr>node = 11, form_id = ''feedback'', form_attributes = [(''id'', ''feedback'')],
      descendants = feedback_controls, elements = feedback_controls,
      autoRecoveryAttached = False\<rparr>"

definition tags_form :: form where
  "tags_form =
     \<lparr>node = 12, form_id = ''tags'', form_attributes = [(''id'', ''tags'')],
      descendants = [text_input ''tag'' ''red'', text_input ''tag'' ''blue''],
      elements = [text_input ''tag'' ''red'', text_input ''tag'' ''blue''],
      autoRecoveryAttached = False\<rparr>"

text \<open>A snapshot written at time \<open>1000\<close>, and the time thirty-one days later.\<close>

definition contact_storage :: storage where
  "contact_storage =
     [''https://example.com/page::contact''
        \<mapsto> \<lparr>data = [''msg'' \<mapsto> Str ''hi''], timestamp = 1000\<rparr>]"

definition week_later :: int where
  "week_later = 1000 + 7 * (24 * 60 * 60 * 1000)"

definition month_later :: int where
  "month_later = 1000 + 31 * (24 * 60 * 60 * 1000)"

definition busy_page :: document where
  "busy_page = example_page\<lparr>notices := 1\<rparr>"

definition monitored_contact_form :: form where
  "monitored_contact_form = monitorForm default_settings contact_form"

text \<open>The monitored form after the page has inserted a password input into it.\<close>

definition contact_form_with_password :: form where
  "contact_form_with_password =
     monitored_contact_form
       \<lparr>descendants := descendants monitored_contact_form @ [password_input],
        elements := elements monitored_contact_form @ [password_input]\<rparr>"

section \<open>Auxiliary facts\<close>

subsection \<open>Evaluation of the string helpers\<close>

lemma toLowerCase_password: "toLowerCase ''password'' = ''password''"
  by (simp add: toLowerCase_def lower_char_def)

lemma toLowerCase_INPUT: "toLowerCase ''INPUT'' = ''input''"
  by (simp add: toLowerCase_def lower_char_def)

lemma some_iff: "some p xs = (\<exists>x\<in>set xs. p x)"
  by (induction xs) auto

lemmas ev = toLowerCase_def lower_char_def or_empty_def getAttribute_def form_getAttribute_def
  input_type_def

lemma querySelector_password_iff:
  "(querySelector_input_type f ''password'' \<noteq> None) = has_password_input f"
  by (auto simp: querySelector_input_type_def querySelectorAll_def has_password_input_def
      find_None_iff some_iff input_type_def or_empty_def toLowerCase_def split: option.splits)

lemma passwordInputs_iff:
  "(length (filter isPasswordInput (querySelectorAll f ''input'')) = 0) = (\<not> has_password_input f)"
  by (auto simp: querySelectorAll_def has_password_input_def some_iff isPasswordInput_def
      input_type_def filter_empty_conv)

lemma textAreas_iff:
  "(length (querySelectorAll f ''textarea'') = 0) = (\<not> has_textarea f)"
  by (auto simp: querySelectorAll_def has_textarea_def some_iff filter_empty_conv)

lemma isTextInput_text_like: "isTextInput = text_like"
  by (auto simp: fun_eq_iff isTextInput_def text_like_def input_type_def Let_def)

lemma isEmailInput_email_like: "isEmailInput = email_like"
  by (auto simp: fun_eq_iff isEmailInput_def email_like_def input_type_def Let_def)

lemma isUserInput_user_like: "isUserInput = user_like"
  by (auto simp: fun_eq_iff isUserInput_def user_like_def Let_def)

lemma indexOf_from_nth:
  "distinct xs \<Longrightarrow> i < length xs \<Longrightarrow> indexOf_from xs (xs ! i) k = k + int i"
proof (induction xs arbitrary: i k)
  case Nil
  then show ?case by simp
next
  case (Cons y ys)
  show ?case
  proof (cases i)
    case 0
    then show ?thesis by simp
  next
    case (Suc j)
    with Cons.prems have "ys ! j \<noteq> y" by auto
    with Cons Suc show ?thesis by simp
  qed
qed

subsection \<open>The save loop as a map\<close>

lemma save_fieldKey_eq: "save_fieldKey el index = fieldKey el index"
  by (simp add: save_fieldKey_def fieldKey_def is_checkable_def Let_def)

lemma restore_fieldKey_eq: "restore_fieldKey el index = fieldKey el index"
  by (simp add: restore_fieldKey_def fieldKey_def is_checkable_def Let_def)

lemma save_field_entries:
  assumes "''__proto__'' \<notin> fst ` set (field_entries index [el])"
  shows "save_field d el index = d ++ map_of (rev (field_entries index [el]))"
  using assms
  by (auto simp: save_field_def obj_set_def eligible_def field_value_def is_checkable_def
      Let_def save_fieldKey_eq)

lemma save_loop_entries:
  assumes "''__proto__'' \<notin> fst ` set (field_entries index els)"
  shows "save_loop d index els = d ++ map_of (rev (field_entries index els))"
  using assms
proof (induction els arbitrary: d index)
  case Nil
  then show ?case by simp
next
  case (Cons el els)
  have here: "''__proto__'' \<notin> fst ` set (field_entries index [el])"
    and rest: "''__proto__'' \<notin> fst ` set (field_entries (Suc index) els)"
    using Cons.prems by auto
  have "save_loop d index (el # els)
        = (d ++ map_of (rev (field_entries index [el])))
          ++ map_of (rev (field_entries (Suc index) els))"
    by (simp add: Cons.IH [OF rest] save_field_entries [OF here])
  also have "\<dots> = d ++ map_of (rev (field_entries index (el # els)))"
    by (simp del: map_add_assoc add: map_add_assoc [symmetric])
  finally show ?case .
qed

lemma map_of_rev_distinct:
  assumes "distinct (map fst xs)"
  shows "map_of (rev xs) = map_of xs"
proof -
  have "distinct (map fst (rev xs))"
    using assms by (simp add: rev_map [symmetric])
  then show ?thesis
    using assms by (simp add: map_of_inject_set)
qed

lemma save_loop_lookup:
  assumes "distinct (map fst (field_entries 0 els))"
    and "''__proto__'' \<notin> fst ` set (field_entries 0 els)"
    and "(k, v) \<in> set (field_entries 0 els)"
  shows "save_loop Map.empty 0 els k = Some v"
  using assms by (simp add: save_loop_entries map_of_rev_distinct)

lemma save_loop_absent:
  assumes "''__proto__'' \<notin> fst ` set (field_entries 0 els)"
    and "k \<notin> fst ` set (field_entries 0 els)"
  shows "save_loop Map.empty 0 els k = None"
  using assms by (simp add: save_loop_entries map_of_eq_None_iff)

subsection \<open>The restore loop on a cleared form\<close>

lemma shouldSaveField_clear_control [simp]:
  "shouldSaveField (clear_control el) = shouldSaveField el"
  by (simp add: shouldSaveField_def clear_control_def getAttribute_def)

lemma tagName_clear_control [simp]: "tagName (clear_control el) = tagName el"
  by (simp add: clear_control_def)

lemma is_checkable_clear_control [simp]: "is_checkable (clear_control el) = is_checkable el"
  by (simp add: clear_control_def is_checkable_def)

lemma fieldKey_clear_control [simp]: "fieldKey (clear_control el) index = fieldKey el index"
  by (simp add: fieldKey_def clear_control_def is_checkable_def)

lemma restore_field_clear_control:
  assumes "eligible el"
    and "saved (fieldKey el index) = Some (field_value el)"
    and "saved ''hasOwnProperty'' = None"
  shows "restore_field saved (clear_control el) index = Inr (Some el)"
proof (cases "is_checkable el")
  case True
  then have "restore_field saved (clear_control el) index
             = Inr (Some ((clear_control el)\<lparr>el_checked := el_checked el\<rparr>))"
    using assms
    by (auto simp: restore_field_def hasOwnProperty_def restore_fieldKey_eq eligible_def
        field_value_def is_checkable_def [symmetric])
  with True show ?thesis
    by (simp add: clear_control_def)
next
  case False
  then have "restore_field saved (clear_control el) index
             = Inr (Some ((clear_control el)\<lparr>el_value := el_value el\<rparr>))"
    using assms
    by (auto simp: restore_field_def hasOwnProperty_def restore_fieldKey_eq eligible_def
        field_value_def is_checkable_def [symmetric])
  with False show ?thesis
    by (simp add: clear_control_def)
qed

lemma restore_field_not_eligible:
  "\<not> eligible el \<Longrightarrow> restore_field saved (clear_control el) index = Inr None"
  by (auto simp: restore_field_def eligible_def)

lemma restore_loop_clear:
  assumes "\<forall>(k, v) \<in> set (field_entries index els). saved k = Some v"
    and "saved ''hasOwnProperty'' = None"
  shows "restore_loop saved index (map clear_control els) restoredAny n
         = (map (\<lambda>el. if eligible el then el else clear_control el) els,
            restoredAny \<or> some eligible els,
            n + count eligible els,
            None)"
  using assms(1)
proof (induction els arbitrary: index restoredAny n)
  case Nil
  then show ?case by (simp add: count_def)
next
  case (Cons el els)
  have rest: "\<forall>(k, v) \<in> set (field_entries (Suc index) els). saved k = Some v"
    using Cons.prems by auto
  show ?case
  proof (cases "eligible el")
    case True
    then have "saved (fieldKey el index) = Some (field_value el)"
      using Cons.prems by simp
    then show ?thesis
      using True Cons.IH [OF rest] assms(2)
      by (simp add: restore_field_clear_control count_def)
  next
    case False
    then show ?thesis
      using Cons.IH [OF rest] by (simp add: restore_field_not_eligible count_def)
  qed
qed

text \<open>A control whose key is \<^verbatim>\<open>__proto__\<close> is not saved, and a snapshot with the key
  \<^verbatim>\<open>hasOwnProperty\<close> makes the restore raise at the first eligible control.\<close>

lemma save_field_proto:
  "fieldKey el index = ''__proto__'' \<Longrightarrow> save_field d el index = d"
  by (simp add: save_field_def obj_set_def save_fieldKey_eq Let_def)

lemma restore_field_hasOwnProperty:
  "eligible el \<Longrightarrow> saved ''hasOwnProperty'' \<noteq> None
   \<Longrightarrow> restore_field saved el index = Inl TypeError"
  by (auto simp: restore_field_def hasOwnProperty_def eligible_def Let_def)

subsection \<open>The classification and the key do not depend on what the controls hold\<close>

lemma isLoginForm_clearForm [simp]: "isLoginForm s (clearForm f) = isLoginForm s f"
  by (simp add: isLoginForm_def clearForm_def querySelector_input_type_def querySelectorAll_def
      form_attrs_def form_getAttribute_def)

lemma getFormKey_clearForm [simp]: "getFormKey doc (clearForm f) = getFormKey doc f"
  by (simp add: getFormKey_def clearForm_def form_getAttribute_def Let_def)

subsection \<open>The example forms\<close>

lemma not_login_feedback: "\<not> isLoginForm default_settings feedback_form"
  by (simp add: isLoginForm_def querySelector_input_type_def querySelectorAll_def
      form_attrs_def auth_keywords_def isTextInput_def isEmailInput_def isPasswordInput_def
      isUserInput_def default_settings_def feedback_form_def feedback_controls_def
      text_input_def hidden_input_def checkbox_def ev)

lemma not_login_tags: "\<not> isLoginForm default_settings tags_form"
  by (simp add: isLoginForm_def querySelector_input_type_def querySelectorAll_def
      form_attrs_def auth_keywords_def isTextInput_def isEmailInput_def isPasswordInput_def
      isUserInput_def default_settings_def tags_form_def text_input_def ev)

lemma eligible_feedback:
  "eligible (text_input ''msg'' ''hi'')" "\<not> eligible (hidden_input ''token'' ''c0ffee'')"
  "eligible (checkbox ''copy'' ''me'' True)"
  by (simp_all add: eligible_def shouldSaveField_def text_input_def hidden_input_def
      checkbox_def ev)

subsection \<open>The flag and the error of the restore loop\<close>

lemma restore_field_raises:
  "restore_field saved el index = Inl e \<Longrightarrow> saved ''hasOwnProperty'' \<noteq> None"
  by (auto simp: restore_field_def hasOwnProperty_def Let_def
      split: if_splits option.splits bool.splits)

lemma restore_field_assigns:
  "restore_field saved el index = Inr (Some el') \<Longrightarrow> saved ''hasOwnProperty'' = None"
  by (auto simp: restore_field_def hasOwnProperty_def Let_def
      split: if_splits option.splits bool.splits)

lemma restore_loop_flag:
  "restore_loop saved index els restoredAny n = (els', restoredAny', n', err)
   \<Longrightarrow> restoredAny' = (restoredAny \<or> n < n') \<and> n \<le> n'"
proof (induction els arbitrary: index restoredAny n els')
  case Nil
  then show ?case by auto
next
  case (Cons el els)
  show ?case
  proof (cases "restore_field saved el index")
    case (Inl e)
    with Cons.prems show ?thesis by auto
  next
    case (Inr r)
    show ?thesis
    proof (cases r)
      case None
      with Inr Cons.prems obtain els'' where
        "restore_loop saved (Suc index) els restoredAny n = (els'', restoredAny', n', err)"
        by (auto split: prod.splits)
      from Cons.IH [OF this] show ?thesis .
    next
      case (Some el')
      with Inr Cons.prems obtain els'' where
        "restore_loop saved (Suc index) els True (Suc n) = (els'', restoredAny', n', err)"
        by (auto split: prod.splits)
      from Cons.IH [OF this] show ?thesis by auto
    qed
  qed
qed

lemma restore_loop_no_error:
  "saved ''hasOwnProperty'' = None
   \<Longrightarrow> restore_loop saved index els restoredAny n = (els', restoredAny', n', err)
   \<Longrightarrow> err = None"
proof (induction els arbitrary: index restoredAny n els')
  case Nil
  then show ?case by auto
next
  case (Cons el els)
  show ?case
  proof (cases "restore_field saved el index")
    case (Inl e)
    from restore_field_raises [OF this] Cons.prems(1) show ?thesis by simp
  next
    case (Inr r)
    show ?thesis
    proof (cases r)
      case None
      with Inr Cons.prems(2) obtain els'' where
        "restore_loop saved (Suc index) els restoredAny n = (els'', restoredAny', n', err)"
        by (auto split: prod.splits)
      from Cons.IH [OF Cons.prems(1) this] show ?thesis .
    next
      case (Some el')
      with Inr Cons.prems(2) obtain els'' where
        "restore_loop saved (Suc index) els True (Suc n) = (els'', restoredAny', n', err)"
        by (auto split: prod.splits)
      from Cons.IH [OF Cons.prems(1) this] show ?thesis .
    qed
  qed
qed

text \<open>An error is raised before any assignment is made.\<close>

lemma restore_loop_error:
  "restore_loop saved index els restoredAny n = (els', restoredAny', n', Some e)
   \<Longrightarrow> n' = n \<and> restoredAny' = restoredAny \<and> els' = els"
proof (induction els arbitrary: index els')
  case Nil
  then show ?case by auto
next
  case (Cons el els)
  show ?case
  proof (cases "restore_field saved el index")
    case (Inl e')
    with Cons.prems show ?thesis by auto
  next
    case (Inr r)
    show ?thesis
    proof (cases r)
      case None
      with Inr Cons.prems obtain els'' where
        loop: "restore_loop saved (Suc index) els restoredAny n = (els'', restoredAny', n', Some e)"
        and "els' = el # els''"
        by (auto split: prod.splits)
      with Cons.IH [OF loop] show ?thesis by simp
    next
      case (Some el')
      with Inr Cons.prems obtain els'' where
        loop: "restore_loop saved (Suc index) els True (Suc n) = (els'', restoredAny', n', Some e)"
        by (auto split: prod.splits)
      from Some Inr have "saved ''hasOwnProperty'' = None"
        by (simp add: restore_field_assigns)
      from restore_loop_no_error [OF this loop] show ?thesis by simp
    qed
  qed
qed

lemma restoreFormData_notification:
  "notification_calls (restoreFormData s doc now st f)
     = (if restoredCount (restoreFormData s doc now st f) > 0 then 1 else 0)
   \<and> restored_document (restoreFormData s doc now st f)
     = (if restoredCount (restoreFormData s doc now st f) > 0
        then showRestoreNotification doc else doc)"
proof (cases "restore_loop (data (the (st (getFormKey doc f)))) 0 (elements f) False 0")
  case (fields els' restoredAny n err)
  from restore_loop_flag [OF this] have flag: "restoredAny = (0 < n)"
    by simp
  show ?thesis
  proof (cases err)
    case None
    with fields flag show ?thesis
      by (auto simp: restoreFormData_def nothing_restored_def Let_def split: option.splits)
  next
    case (Some e)
    with fields have "n = 0"
      using restore_loop_error [of _ 0 "elements f" False 0 els' restoredAny n e] by simp
    with fields Some show ?thesis
      by (auto simp: restoreFormData_def nothing_restored_def Let_def split: option.splits)
  qed
qed

lemma has_password_input_login:
  "ignoreLoginForms s \<Longrightarrow> has_password_input f \<Longrightarrow> isLoginForm s f"
  using querySelector_password_iff [of f] by (simp add: isLoginForm_def)

subsection \<open>The example forms, continued\<close>

lemma login_contact_with_password:
  "isLoginForm default_settings contact_form_with_password"
  by (rule has_password_input_login)
    (simp_all add: default_settings_def has_password_input_def contact_form_with_password_def
      password_input_def input_type_def some_iff ev)

lemma not_login_contact: "\<not> isLoginForm default_settings contact_form"
  by (simp add: isLoginForm_def querySelector_input_type_def querySelectorAll_def
      form_attrs_def auth_keywords_def isTextInput_def isEmailInput_def isPasswordInput_def
      isUserInput_def default_settings_def contact_form_def text_input_def ev)

lemma key_contact: "getFormKey doc contact_form = location_origin doc @ location_pathname doc @ ''::contact''"
  by (simp add: getFormKey_def contact_form_def Let_def or_empty_def)

lemma restore_contact:
  "restoreFormData default_settings doc week_later contact_storage
     (clearForm contact_form)
   = \<lparr>restored_form = contact_form, storage_calls = [],
      restored_document = showRestoreNotification doc, restoredCount = 1,
      notification_calls = 1, raised = None\<rparr>"
  if "location_origin doc = ''https://example.com''" "location_pathname doc = ''/page''"
proof -
  have m: "retentionMs default_settings = 2592000000"
    by (simp add: retentionMs_def default_settings_def)
  have f: "restore_field [''msg'' \<mapsto> Str ''hi''] (clear_control (text_input ''msg'' ''hi'')) 0
           = Inr (Some (text_input ''msg'' ''hi''))"
    by (rule restore_field_clear_control)
      (simp_all add: eligible_def shouldSaveField_def fieldKey_def field_value_def
        is_checkable_def text_input_def ev)
  have c: "elements (clearForm contact_form) = [clear_control (text_input ''msg'' ''hi'')]"
    by (simp add: clearForm_def contact_form_def)
  have "(clearForm contact_form)\<lparr>elements := [text_input ''msg'' ''hi'']\<rparr> = contact_form"
    by (simp add: clearForm_def contact_form_def)
  then show ?thesis
    using not_login_contact that
    by (simp add: restoreFormData_def key_contact contact_storage_def week_later_def m c f)
qed

section \<open>Login form classification\<close>

text \<open>
  Claim C1. With \<open>ignoreLoginForms\<close> true, a form that has among its descendants an
  \<^verbatim>\<open>input\<close> whose \<^verbatim>\<open>type\<close> attribute is \<^verbatim>\<open>password\<close> is classified as a login
  form, whatever its other attributes and contents.
\<close>

theorem password_input_is_login_form:
  assumes "ignoreLoginForms s"
    and "el \<in> set (descendants f)"
    and "toLowerCase (tagName el) = ''input''"
    and "getAttribute el ''type'' = Some ''password''"
  shows "isLoginForm s f"
proof -
  have "el \<in> set (querySelectorAll f ''input'')"
    using assms(2,3) by (simp add: querySelectorAll_def)
  then have "querySelector_input_type f ''password'' \<noteq> None"
    using assms(4)
    by (auto simp: querySelector_input_type_def find_None_iff toLowerCase_password)
  then show ?thesis
    using assms(1) by (simp add: isLoginForm_def)
qed

theorem password_input_is_login_form_witness:
  "ignoreLoginForms default_settings
   \<and> password_input \<in> set (descendants signup_form)
   \<and> toLowerCase (tagName password_input) = ''input''
   \<and> getAttribute password_input ''type'' = Some ''password''
   \<and> isLoginForm default_settings signup_form"
proof -
  have h1: "ignoreLoginForms default_settings"
    by (simp add: default_settings_def)
  have h2: "password_input \<in> set (descendants signup_form)"
    by (simp add: signup_form_def)
  have h3: "toLowerCase (tagName password_input) = ''input''"
    by (simp add: password_input_def toLowerCase_INPUT)
  have h4: "getAttribute password_input ''type'' = Some ''password''"
    by (simp add: password_input_def getAttribute_def)
  from password_input_is_login_form [OF h1 h2 h3 h4] h1 h2 h3 h4 show ?thesis
    by simp
qed

text \<open>
  Claim C2. With \<open>ignoreLoginForms\<close> false no form is classified as a login form, not even
  one with a password input or an authentication keyword in its attributes.
\<close>

theorem opt_out_never_login_form:
  assumes "\<not> ignoreLoginForms s"
  shows "\<not> isLoginForm s f"
  using assms by (simp add: isLoginForm_def)

theorem opt_out_never_login_form_witness:
  "\<not> ignoreLoginForms (default_settings\<lparr>ignoreLoginForms := False\<rparr>)
   \<and> \<not> isLoginForm (default_settings\<lparr>ignoreLoginForms := False\<rparr>) signup_form"
proof -
  have h: "\<not> ignoreLoginForms (default_settings\<lparr>ignoreLoginForms := False\<rparr>)"
    by simp
  from opt_out_never_login_form [OF h] h show ?thesis
    by simp
qed

text \<open>
  Claim C3, as amended. With \<open>ignoreLoginForms\<close> true, no password input, no
  \<^verbatim>\<open>textarea\<close> and no authentication keyword in the lower-cased attributes, a form
  is a login form exactly when (a) it has at least one email-like input, at most one
  text-like input and at most three inputs, or (b) it has at least one input whose
  lower-cased name or id contains \<^verbatim>\<open>user\<close> or \<^verbatim>\<open>login\<close> and at most three inputs.
  Text-like means that the lower-cased \<^verbatim>\<open>type\<close> attribute is one of \<^verbatim>\<open>text\<close>,
  \<^verbatim>\<open>email\<close>, \<^verbatim>\<open>tel\<close>, \<^verbatim>\<open>phone\<close>, \<^verbatim>\<open>number\<close>, or is empty or absent.
\<close>

theorem structural_rule_decides:
  assumes "ignoreLoginForms s"
    and "\<not> has_password_input f"
    and "\<not> has_textarea f"
    and "\<not> has_auth_keyword f"
  shows "isLoginForm s f = structural_rule text_like f"
proof -
  have a: "querySelector_input_type f ''password'' = None"
    using assms(2) querySelector_password_iff by blast
  have b: "filter isPasswordInput (form_inputs f) = []"
    using assms(2) passwordInputs_iff [of f] by (simp add: querySelectorAll_def form_inputs_def)
  have c: "querySelectorAll f ''textarea'' = []"
    using assms(3) textAreas_iff by simp
  have d: "\<not> some (\<lambda>k. str_includes (form_attrs f) k) auth_keywords"
    using assms(4) by (simp add: has_auth_keyword_def)
  have e: "querySelectorAll f ''input'' = form_inputs f"
    by (simp add: querySelectorAll_def form_inputs_def)
  show ?thesis
    using assms(1) d
    by (simp add: isLoginForm_def a b c e structural_rule_def count_def Let_def
        isTextInput_text_like isEmailInput_email_like isUserInput_user_like)
qed

theorem structural_rule_decides_witness:
  "ignoreLoginForms default_settings
   \<and> \<not> has_password_input email_step_form
   \<and> \<not> has_textarea email_step_form
   \<and> \<not> has_auth_keyword email_step_form
   \<and> structural_rule text_like email_step_form
   \<and> isLoginForm default_settings email_step_form"
proof -
  have h1: "ignoreLoginForms default_settings"
    by (simp add: default_settings_def)
  have h2: "\<not> has_password_input email_step_form"
    by (simp add: has_password_input_def email_step_form_def email_input_def ev)
  have h3: "\<not> has_textarea email_step_form"
    by (simp add: has_textarea_def email_step_form_def email_input_def ev)
  have h4: "\<not> has_auth_keyword email_step_form"
    by (simp add: has_auth_keyword_def form_attrs_def auth_keywords_def email_step_form_def ev)
  have r: "structural_rule text_like email_step_form"
    by (simp add: structural_rule_def form_inputs_def count_def text_like_def email_like_def
        user_like_def email_step_form_def email_input_def ev)
  from structural_rule_decides [OF h1 h2 h3 h4] r h1 h2 h3 h4 show ?thesis
    by simp
qed

text \<open>
  The claim as stated counts as text-like the types \<^verbatim>\<open>text\<close>, \<^verbatim>\<open>email\<close>,
  \<^verbatim>\<open>tel\<close>, \<^verbatim>\<open>number\<close> and an absent type. A form with an email input and an input
  of type \<^verbatim>\<open>phone\<close> then satisfies (a), and the script, which counts \<^verbatim>\<open>phone\<close> as
  text-like, does not classify it as a login form.
\<close>

theorem structural_rule_counterexample:
  "ignoreLoginForms default_settings
   \<and> \<not> has_password_input callback_form
   \<and> \<not> has_textarea callback_form
   \<and> \<not> has_auth_keyword callback_form
   \<and> structural_rule claimed_text_like callback_form
   \<and> \<not> isLoginForm default_settings callback_form"
  apply (intro conjI)
  subgoal by (simp add: default_settings_def)
  subgoal by (simp add: has_password_input_def callback_form_def email_input_def phone_input_def ev)
  subgoal by (simp add: has_textarea_def callback_form_def email_input_def phone_input_def ev)
  subgoal by (simp add: has_auth_keyword_def form_attrs_def auth_keywords_def callback_form_def ev)
  subgoal by (simp add: structural_rule_def form_inputs_def count_def claimed_text_like_def
     email_like_def user_like_def callback_form_def email_input_def phone_input_def ev)
  subgoal by (simp add: isLoginForm_def querySelector_input_type_def querySelectorAll_def
     form_attrs_def auth_keywords_def isTextInput_def isEmailInput_def isPasswordInput_def
     isUserInput_def default_settings_def callback_form_def email_input_def phone_input_def ev)
  done

section \<open>Field eligibility\<close>

text \<open>
  Claim C4. The eligibility predicate refuses a control exactly when it is an
  \<^verbatim>\<open>input\<close> of type \<^verbatim>\<open>password\<close>, \<^verbatim>\<open>hidden\<close> or \<^verbatim>\<open>file\<close>, or its
  \<^verbatim>\<open>autocomplete\<close> value is \<^verbatim>\<open>off\<close>, or its \<^verbatim>\<open>data-autorecovery\<close> attribute is
  the string \<^verbatim>\<open>false\<close>; every control with none of these markers is accepted.
\<close>

theorem shouldSaveField_exclusions:
  "shouldSaveField el =
     (\<not> (toLowerCase (tagName el) = ''input''
          \<and> toLowerCase (or_empty (getAttribute el ''type''))
              \<in> {''password'', ''hidden'', ''file''})
      \<and> el_autocomplete el \<noteq> ''off''
      \<and> getAttribute el ''data-autorecovery'' \<noteq> Some ''false'')"
  by (auto simp: shouldSaveField_def Let_def)

theorem shouldSaveField_exclusions_witness:
  "shouldSaveField (text_input ''msg'' ''hi'')
   \<and> \<not> shouldSaveField password_input
   \<and> \<not> shouldSaveField ((text_input ''msg'' ''hi'')\<lparr>el_autocomplete := ''off''\<rparr>)
   \<and> \<not> shouldSaveField ((text_input ''msg'' ''hi'')
          \<lparr>attributes := [(''data-autorecovery'', ''false'')]\<rparr>)"
  unfolding shouldSaveField_exclusions
  by (simp add: text_input_def password_input_def getAttribute_def or_empty_def
      toLowerCase_def lower_char_def)

section \<open>Field keys and form keys\<close>

text \<open>
  Claim C6. For the control at a given position of a form, the save loop and the restore
  loop compute the same field key: the control's name, else its id, else the lower-cased
  tag, an underscore and the position; and for a checkbox or radio control with a name
  that is not empty, the name, an underscore and the control's value.
\<close>

theorem field_key_same_on_both_paths:
  "save_fieldKey el index = restore_fieldKey el index
   \<and> save_fieldKey el index = fieldKey el index"
  by (simp add: save_fieldKey_def restore_fieldKey_def fieldKey_def is_checkable_def Let_def)

theorem field_key_same_on_both_paths_witness:
  "save_fieldKey (text_input ''msg'' ''hi'') 0 = ''msg''
   \<and> restore_fieldKey (text_input ''msg'' ''hi'') 0 = ''msg''
   \<and> save_fieldKey (text_input [] ''hi'') 12 = ''input_12''"
proof -
  have a: "fieldKey (text_input ''msg'' ''hi'') 0 = ''msg''"
    by (simp add: fieldKey_def text_input_def is_checkable_def)
  have "toString (int 12) = ''12''"
    by (simp add: toString_def nat_toString.simps digit_def)
  then have b: "fieldKey (text_input [] ''hi'') 12 = ''input_12''"
    by (simp add: fieldKey_def text_input_def is_checkable_def toLowerCase_def lower_char_def)
  from field_key_same_on_both_paths [of "text_input ''msg'' ''hi''" 0]
    field_key_same_on_both_paths [of "text_input [] ''hi''" 12] a b
  show ?thesis
    by metis
qed


text \<open>
  Claim C7. The form key is the origin, the path, \<^verbatim>\<open>::\<close> and then the form's id if it
  is not empty, else its \<^verbatim>\<open>name\<close> attribute if that is not empty, else the zero-based
  position of the form in \<^verbatim>\<open>document.forms\<close>.
\<close>

theorem getFormKey_identifier:
  assumes "distinct (document_forms doc)"
    and "i < length (document_forms doc)"
    and "document_forms doc ! i = node f"
  shows "getFormKey doc f =
           location_origin doc @ location_pathname doc @ ''::'' @
           (if form_id f \<noteq> [] then form_id f
            else if or_empty (form_getAttribute f ''name'') \<noteq> []
                 then or_empty (form_getAttribute f ''name'')
                 else toString (int i))"
proof -
  have "indexOf (document_forms doc) (node f) = int i"
    using indexOf_from_nth [OF assms(1,2), of 0] assms(3) by (simp add: indexOf_def)
  then show ?thesis
    by (simp add: getFormKey_def Let_def or_empty_def)
qed

theorem getFormKey_identifier_witness:
  "distinct (document_forms example_page)
   \<and> 1 < length (document_forms example_page)
   \<and> document_forms example_page ! 1 = node search_form
   \<and> getFormKey example_page search_form = ''https://example.com/page::1''"
proof -
  have h1: "distinct (document_forms example_page)"
    by (simp add: example_page_def)
  have h2: "1 < length (document_forms example_page)"
    by (simp add: example_page_def)
  have h3: "document_forms example_page ! 1 = node search_form"
    by (simp add: example_page_def search_form_def)
  have "toString (int 1) = ''1''"
    by (simp add: toString_def nat_toString.simps digit_def)
  with getFormKey_identifier [OF h1 h2 h3] h1 h2 h3 show ?thesis
    by (simp add: example_page_def search_form_def form_getAttribute_def or_empty_def)
qed

section \<open>Saving and restoring\<close>

text \<open>
  Claim C5, as amended. For a form that is not a login form, whose eligible controls
  have pairwise distinct field keys, none of them \<^verbatim>\<open>__proto__\<close> or
  \<^verbatim>\<open>hasOwnProperty\<close>: a snapshot taken at time \<open>t\<close>, then clearing the controls, then a
  restore from that snapshot at a time \<open>t'\<close> within the retention window leaves every
  eligible control as it was before (its checked state for a checkbox or a radio button,
  its value otherwise), and the restore raises no error and assigns exactly as many
  fields as there are eligible controls.
\<close>

theorem snapshot_restore_roundtrip:
  assumes "\<not> isLoginForm s f"
    and "distinct (map fst (field_entries 0 (elements f)))"
    and "''__proto__'' \<notin> set (map fst (field_entries 0 (elements f)))"
    and "''hasOwnProperty'' \<notin> set (map fst (field_entries 0 (elements f)))"
    and "t' - t \<le> retentionMs s"
  shows "let st' = perform (saveFormData s doc t f) st;
             r = restoreFormData s doc t' st' (clearForm f)
         in (\<forall>i < length (elements f).
               eligible (elements f ! i) \<longrightarrow> elements (restored_form r) ! i = elements f ! i)
            \<and> restoredCount r = count eligible (elements f)
            \<and> raised r = None"
proof -
  let ?key = "getFormKey doc f"
  let ?d = "save_loop Map.empty 0 (elements f)"
  let ?st' = "perform (saveFormData s doc t f) st"
  have proto: "''__proto__'' \<notin> fst ` set (field_entries 0 (elements f))"
    and own: "''hasOwnProperty'' \<notin> fst ` set (field_entries 0 (elements f))"
    using assms(3,4) by simp_all
  have stored: "?st' ?key = Some \<lparr>data = ?d, timestamp = t\<rparr>"
    using assms(1) by (simp add: saveFormData_def perform_def Let_def)
  have saved: "\<forall>(k, v) \<in> set (field_entries 0 (elements f)). ?d k = Some v"
    using save_loop_lookup [OF assms(2) proto] by auto
  have callable: "?d ''hasOwnProperty'' = None"
    using save_loop_absent [OF proto own] .
  have loop: "restore_loop ?d 0 (elements (clearForm f)) False 0
              = (map (\<lambda>el. if eligible el then el else clear_control el) (elements f),
                 some eligible (elements f), count eligible (elements f), None)"
    using restore_loop_clear [OF saved callable, of False 0] by (simp add: clearForm_def)
  have "elements (restored_form (restoreFormData s doc t' ?st' (clearForm f)))
          = map (\<lambda>el. if eligible el then el else clear_control el) (elements f)
        \<and> restoredCount (restoreFormData s doc t' ?st' (clearForm f))
          = count eligible (elements f)
        \<and> raised (restoreFormData s doc t' ?st' (clearForm f)) = None"
    using assms(1,5) by (simp add: restoreFormData_def stored loop Let_def)
  then show ?thesis
    by (simp add: Let_def)
qed

theorem snapshot_restore_roundtrip_witness:
  "\<not> isLoginForm default_settings feedback_form
   \<and> distinct (map fst (field_entries 0 (elements feedback_form)))
   \<and> ''__proto__'' \<notin> set (map fst (field_entries 0 (elements feedback_form)))
   \<and> ''hasOwnProperty'' \<notin> set (map fst (field_entries 0 (elements feedback_form)))
   \<and> week_later - 1000 \<le> retentionMs default_settings
   \<and> (let st' = perform (saveFormData default_settings example_page 1000 feedback_form) Map.empty;
           r = restoreFormData default_settings example_page week_later st'
                 (clearForm feedback_form)
       in elements (restored_form r) ! 0 = text_input ''msg'' ''hi''
          \<and> elements (restored_form r) ! 2 = checkbox ''copy'' ''me'' True
          \<and> restoredCount r = 2
          \<and> raised r = None)"
proof -
  have fk: "fieldKey (text_input ''msg'' ''hi'') i = ''msg''"
    "fieldKey (checkbox ''copy'' ''me'' True) i = ''copy_me''" for i
    by (simp_all add: fieldKey_def is_checkable_def text_input_def checkbox_def)
  have keys: "map fst (field_entries 0 (elements feedback_form)) = [''msg'', ''copy_me'']"
    by (simp add: feedback_form_def feedback_controls_def eligible_feedback fk)
  have h1: "\<not> isLoginForm default_settings feedback_form"
    by (rule not_login_feedback)
  have h2: "distinct (map fst (field_entries 0 (elements feedback_form)))"
    by (simp add: keys)
  have h3: "''__proto__'' \<notin> set (map fst (field_entries 0 (elements feedback_form)))"
    by (simp add: keys)
  have h4: "''hasOwnProperty'' \<notin> set (map fst (field_entries 0 (elements feedback_form)))"
    by (simp add: keys)
  have h5: "week_later - 1000 \<le> retentionMs default_settings"
    by (simp add: week_later_def retentionMs_def default_settings_def)
  have n: "count eligible (elements feedback_form) = 2"
    by (simp add: count_def feedback_form_def feedback_controls_def eligible_feedback)
  have e: "elements feedback_form ! 0 = text_input ''msg'' ''hi''"
    "elements feedback_form ! 2 = checkbox ''copy'' ''me'' True"
    "length (elements feedback_form) = 3"
    by (simp_all add: feedback_form_def feedback_controls_def)
  from snapshot_restore_roundtrip [OF h1 h2 h3 h4 h5, of example_page Map.empty]
    h1 h2 h3 h4 h5 n e eligible_feedback
  show ?thesis
    by (simp add: Let_def)
qed

text \<open>
  Without distinct field keys the claim fails: two text inputs with the same name share
  one key, the later value overwrites the earlier one in the snapshot, and the restore
  writes it to both controls.
\<close>

theorem snapshot_restore_roundtrip_counterexample:
  "\<not> isLoginForm default_settings tags_form
   \<and> eligible (elements tags_form ! 0)
   \<and> el_value (elements tags_form ! 0) = ''red''
   \<and> (let st' = perform (saveFormData default_settings example_page 1000 tags_form) Map.empty;
           r = restoreFormData default_settings example_page 2000 st' (clearForm tags_form)
       in el_value (elements (restored_form r) ! 0) = ''blue'')"
proof -
  have k: "getFormKey example_page tags_form = ''https://example.com/page::tags''"
    by (simp add: getFormKey_def tags_form_def example_page_def Let_def or_empty_def)
  have e: "eligible (text_input ''tag'' ''red'')" "eligible (text_input ''tag'' ''blue'')"
    by (simp_all add: eligible_def shouldSaveField_def text_input_def ev)
  have s: "shouldSaveField (text_input ''tag'' v)" "toLowerCase (tagName (text_input ''tag'' v)) = ''input''"
    "el_type (text_input ''tag'' v) = ''text''" "el_name (text_input ''tag'' v) = ''tag''"
    "el_value (text_input ''tag'' v) = v" for v
    by (simp_all add: shouldSaveField_def text_input_def ev)
  have d: "save_loop Map.empty 0 (elements tags_form) = [''tag'' \<mapsto> Str ''blue'']"
    by (simp add: tags_form_def save_field_def obj_set_def save_fieldKey_def s Let_def)
  have c: "elements (clearForm tags_form) = [text_input ''tag'' [], text_input ''tag'' []]"
    by (simp add: clearForm_def tags_form_def clear_control_def is_checkable_def text_input_def)
  have l: "restore_field [''tag'' \<mapsto> Str ''blue''] (text_input ''tag'' []) i
           = Inr (Some (text_input ''tag'' ''blue''))" for i
    by (simp add: restore_field_def hasOwnProperty_def restore_fieldKey_def s Let_def)
      (simp add: text_input_def)
  have m: "retentionMs default_settings = 2592000000"
    by (simp add: retentionMs_def default_settings_def)
  have r: "restoreFormData default_settings example_page 2000
             (perform (saveFormData default_settings example_page 1000 tags_form) Map.empty)
             (clearForm tags_form)
           = \<lparr>restored_form = (clearForm tags_form)
                \<lparr>elements := [text_input ''tag'' ''blue'', text_input ''tag'' ''blue'']\<rparr>,
              storage_calls = [],
              restored_document = showRestoreNotification example_page,
              restoredCount = 2, notification_calls = 1, raised = None\<rparr>"
    using not_login_tags
    by (simp add: Let_def saveFormData_def perform_def restoreFormData_def k d c l m)
  have e0: "elements tags_form ! 0 = text_input ''tag'' ''red''"
    by (simp add: tags_form_def)
  show ?thesis
    using not_login_tags e by (simp add: Let_def r e0 s)
qed

section \<open>Expiry\<close>

text \<open>
  Claim C8. For a snapshot stored under the key of the form that is restored, with a
  timestamp older than \<open>retentionDays\<close> days at restore time: the restore assigns no
  field, leaves the form and the document as they are, and issues exactly one call, the
  removal of the snapshot's key. The form is not a login form, as in every call of
  \<^verbatim>\<open>restoreFormData\<close> the script makes; the timestamp is a value of \<^verbatim>\<open>Date.now()\<close> and
  \<open>retentionDays\<close> what the settings pages store (\<^verbatim>\<open>parseInt(...) || 30\<close>), so
  neither is zero.
\<close>

theorem expired_snapshot_is_removed:
  assumes "\<not> isLoginForm s f"
    and "st (getFormKey doc f) = Some e"
    and "timestamp e \<noteq> 0"
    and "retentionDays s \<noteq> 0"
    and "now - timestamp e > retentionDays s * (24 * 60 * 60 * 1000)"
  shows "restoreFormData s doc now st f
         = \<lparr>restored_form = f, storage_calls = [StorageRemove (getFormKey doc f)],
            restored_document = doc, restoredCount = 0, notification_calls = 0,
            raised = None\<rparr>"
  using assms by (simp add: restoreFormData_def nothing_restored_def retentionMs_def Let_def)

theorem expired_snapshot_is_removed_witness:
  "\<not> isLoginForm default_settings (clearForm contact_form)
   \<and> contact_storage (getFormKey example_page (clearForm contact_form))
       = Some \<lparr>data = [''msg'' \<mapsto> Str ''hi''], timestamp = 1000\<rparr>
   \<and> retentionDays default_settings = 30
   \<and> month_later - 1000 > 30 * (24 * 60 * 60 * 1000)
   \<and> restoreFormData default_settings example_page month_later contact_storage
        (clearForm contact_form)
       = \<lparr>restored_form = clearForm contact_form,
          storage_calls = [StorageRemove ''https://example.com/page::contact''],
          restored_document = example_page, restoredCount = 0, notification_calls = 0,
          raised = None\<rparr>"
proof -
  let ?e = "\<lparr>data = [''msg'' \<mapsto> Str ''hi''], timestamp = 1000\<rparr>"
  have k: "getFormKey example_page contact_form = ''https://example.com/page::contact''"
    by (simp add: key_contact example_page_def)
  have h1: "\<not> isLoginForm default_settings (clearForm contact_form)"
    by (simp add: not_login_contact)
  have h2: "contact_storage (getFormKey example_page (clearForm contact_form)) = Some ?e"
    by (simp add: k contact_storage_def)
  have h3: "timestamp ?e \<noteq> 0"
    by simp
  have h4: "retentionDays default_settings \<noteq> 0" and d: "retentionDays default_settings = 30"
    by (simp_all add: default_settings_def)
  have h5: "month_later - timestamp ?e > retentionDays default_settings * (24 * 60 * 60 * 1000)"
    by (simp add: month_later_def default_settings_def)
  from expired_snapshot_is_removed [where s = default_settings and f = "clearForm contact_form"
      and st = contact_storage and doc = example_page and e = ?e and now = month_later,
      OF h1 h2 h3 h4 h5] h1 h2 h5 d k
  show ?thesis
    by simp
qed

section \<open>The restore notice\<close>

text \<open>
  Claim C9, as amended. A restore that assigns at least one field calls
  \<^verbatim>\<open>showRestoreNotification\<close> exactly once, and the call adds one notice to the document
  unless a notice is already there, in which case it adds none; a restore that assigns no
  field does not call it and leaves the document as it is.
\<close>

theorem notice_after_restore:
  "notification_calls (restoreFormData s doc now st f)
     = (if restoredCount (restoreFormData s doc now st f) > 0 then 1 else 0)
   \<and> restored_document (restoreFormData s doc now st f)
     = (if restoredCount (restoreFormData s doc now st f) > 0
        then showRestoreNotification doc else doc)
   \<and> notices (restored_document (restoreFormData s doc now st f))
     = (if restoredCount (restoreFormData s doc now st f) > 0 \<and> notices doc = 0
        then 1 else notices doc)"
  by (simp add: restoreFormData_notification showRestoreNotification_def)

theorem notice_after_restore_witness:
  "restoredCount (restoreFormData default_settings example_page week_later contact_storage
     (clearForm contact_form)) = 1
   \<and> notification_calls (restoreFormData default_settings example_page week_later
        contact_storage (clearForm contact_form)) = 1
   \<and> notices example_page = 0
   \<and> notices (restored_document (restoreFormData default_settings example_page week_later
        contact_storage (clearForm contact_form))) = 1"
  using notice_after_restore [of default_settings example_page week_later contact_storage
      "clearForm contact_form"]
  by (simp add: restore_contact example_page_def)

text \<open>
  The claim as stated has one notice for each restore that assigns a field. A restore
  that runs while the notice of an earlier restore is still in the document assigns its
  field, calls \<^verbatim>\<open>showRestoreNotification\<close>, and no notice is added.
\<close>

theorem notice_counterexample:
  "restoredCount (restoreFormData default_settings busy_page week_later contact_storage
     (clearForm contact_form)) = 1
   \<and> notification_calls (restoreFormData default_settings busy_page week_later
        contact_storage (clearForm contact_form)) = 1
   \<and> notices (restored_document (restoreFormData default_settings busy_page week_later
        contact_storage (clearForm contact_form))) = notices busy_page"
  by (simp add: restore_contact busy_page_def example_page_def showRestoreNotification_def)

section \<open>Saving a form that has become a login form\<close>

text \<open>
  Claim C10. Every call of \<^verbatim>\<open>saveFormData\<close> classifies the form as it is at that moment
  and issues no call to the storage when it is a login form. So for a form whose
  listeners are attached, a sequence of firings of the debounced listener in each of
  which the form is classified as a login form (for example because a password input was
  inserted after the listeners were attached) leaves the storage as it was and issues no
  call; the listeners stay attached.
\<close>

theorem login_form_is_not_persisted:
  assumes "\<forall>(now, g) \<in> set firings. autoRecoveryAttached g \<and> isLoginForm s g"
  shows "run_saves s doc firings st = (st, [])
         \<and> (\<forall>(now, g) \<in> set firings.
               saveFormData s doc now g = [] \<and> monitorForm s g = g)"
  using assms
proof (induction firings arbitrary: st)
  case Nil
  then show ?case by simp
next
  case (Cons firing firings)
  obtain now g where firing: "firing = (now, g)"
    by (cases firing)
  with Cons.prems have g: "autoRecoveryAttached g" "isLoginForm s g"
    by simp_all
  then have "saveFormData s doc now g = []" "monitorForm s g = g"
    by (simp_all add: saveFormData_def monitorForm_def)
  moreover have "\<forall>(now, g) \<in> set firings. autoRecoveryAttached g \<and> isLoginForm s g"
    using Cons.prems by simp
  ultimately show ?case
    using Cons.IH [of st] firing by (simp add: perform_def)
qed

theorem login_form_is_not_persisted_witness:
  "\<not> isLoginForm default_settings contact_form
   \<and> autoRecoveryAttached contact_form_with_password
   \<and> isLoginForm default_settings contact_form_with_password
   \<and> run_saves default_settings example_page
        [(1000, contact_form_with_password), (week_later, contact_form_with_password)]
        contact_storage
       = (contact_storage, [])"
proof -
  have a: "autoRecoveryAttached contact_form_with_password"
    using not_login_contact
    by (simp add: contact_form_with_password_def monitored_contact_form_def monitorForm_def
        contact_form_def)
  have "\<forall>(now, g) \<in> set [(1000, contact_form_with_password),
          (week_later, contact_form_with_password)].
          autoRecoveryAttached g \<and> isLoginForm default_settings g"
    using a login_contact_with_password by simp
  from login_form_is_not_persisted [OF this, of example_page contact_storage]
    a login_contact_with_password not_login_contact
  show ?thesis
    by blast
qed

end
